theory Spec2Isabelle
  imports Complex_Main
begin

section \<open>Python values and pandas containers\<close>

text \<open>
  The exception classes that occur in \<^verbatim>\<open>stock_analyzer1.0.py\<close>. \<open>OSError\<close> stands for
  the class and its subclasses. \<open>KeyboardInterrupt\<close> is the one class here that derives from
  \<open>BaseException\<close> only. \<open>RetryError e\<close> is the error of the retry library, carrying the
  exception of the last attempt.
\<close>

datatype exn =
    ValueError | TypeError | KeyError | IndexError | OSError | AttributeError
  | KeyboardInterrupt | RetryError exn

text \<open>
  A timestamp is held as Python's \<open>datetime\<close> holds it: the wall-clock reading; the time
  zone is kept beside it (in the index or column that owns the value).
\<close>

record stamp =
  year :: int
  month :: nat
  day :: nat
  nanos :: nat

type_synonym tzname = string

text \<open>Scalar Python objects as they occur in mappings and in columns of generic type.\<close>

datatype pyobj =
    PNone
  | PFloat "real option"            \<comment> \<open>\<open>None\<close> is NaN\<close>
  | PInt int
  | PStr string
  | PTimestamp "tzname option" stamp
  | PNaT
  | PDate int nat nat

text \<open>
  A column by its declared type: \<open>datetime64[ns]\<close> (no zone) or \<open>datetime64[ns, tz]\<close>,
  \<open>float64\<close>, \<open>int64\<close>, or \<open>object\<close>. In a datetime column \<open>None\<close> is NaT, in a float
  column it is NaN.
\<close>

datatype coldata =
    DatetimeCol "tzname option" "stamp option list"
  | FloatCol "real option list"
  | IntCol "int list"
  | ObjectCol "pyobj list"

datatype pd_index =
    DatetimeIndex "tzname option" "stamp option list"
  | RangeIndex nat
  | ObjectIndex "pyobj list"

fun index_len :: "pd_index \<Rightarrow> nat" where
  "index_len (DatetimeIndex tz vs) = length vs"
| "index_len (RangeIndex n) = n"
| "index_len (ObjectIndex vs) = length vs"

record dataframe =
  df_index :: pd_index
  df_cols :: "(string \<times> coldata) list"

record series =
  s_index :: pd_index
  s_name :: "string option"
  s_data :: coldata

text \<open>
  What a variable of the script may hold where a dataset is expected. \<open>Other e\<close> is any
  object that is neither a table, a column nor a mapping; \<open>e\<close> is the truth value of its
  attribute \<open>empty\<close> when it has one (a list has none).
\<close>

datatype pydata =
    PyNone
  | DataFrame dataframe
  | Series series
  | Dict "(string \<times> pyobj) list"
  | Other "bool option"

text \<open>\<open>DataFrame.empty\<close>: some axis has length 0. \<open>Series.empty\<close>: no entries.\<close>

definition df_empty :: "dataframe \<Rightarrow> bool" where
  "df_empty d = (index_len (df_index d) = 0 \<or> df_cols d = [])"

definition series_empty :: "series \<Rightarrow> bool" where
  "series_empty s = (index_len (s_index s) = 0)"

text \<open>\<open>hasattr(data, 'empty') and data.empty\<close>\<close>

fun has_true_empty :: "pydata \<Rightarrow> bool" where
  "has_true_empty PyNone = False"
| "has_true_empty (DataFrame d) = df_empty d"
| "has_true_empty (Series s) = series_empty s"
| "has_true_empty (Dict kvs) = False"
| "has_true_empty (Other e) = (e = Some True)"

text \<open>
  \<open>pd.DataFrame([data])\<close> for a mapping: one row, a column per key in the order of the
  keys, the column's type inferred from the value.
\<close>

fun infer_column :: "pyobj \<Rightarrow> coldata" where
  "infer_column (PFloat r) = FloatCol [r]"
| "infer_column (PInt i) = IntCol [i]"
| "infer_column (PTimestamp tz s) = DatetimeCol tz [Some s]"
| "infer_column PNaT = DatetimeCol None [None]"
| "infer_column v = ObjectCol [v]"

definition frame_of_record :: "(string \<times> pyobj) list \<Rightarrow> dataframe" where
  "frame_of_record kvs =
     \<lparr>df_index = RangeIndex 1, df_cols = map (\<lambda>(k, v). (k, infer_column v)) kvs\<rparr>"

fun is_dict :: "pydata \<Rightarrow> bool" where
  "is_dict (Dict kvs) = True"
| "is_dict _ = False"

fun is_tabular :: "pydata \<Rightarrow> bool" where
  "is_tabular (DataFrame d) = True"
| "is_tabular (Series s) = True"
| "is_tabular _ = False"

subsection \<open>\<open>handle_data\<close>\<close>

fun handle_data :: "pydata \<Rightarrow> string option \<Rightarrow> pydata" where
  "handle_data data data_type =
     (if data = PyNone \<or> has_true_empty data then PyNone
      else if data_type = Some ''info'' \<and> is_dict data then
        (case data of Dict kvs \<Rightarrow> DataFrame (frame_of_record kvs) | _ \<Rightarrow> PyNone)
      else if is_tabular data then data
      else PyNone)"

text \<open>Reading a table back: the cell of a column at a row, and a row as a mapping.\<close>

fun cell :: "coldata \<Rightarrow> nat \<Rightarrow> pyobj" where
  "cell (DatetimeCol tz vs) i = (case vs ! i of None \<Rightarrow> PNaT | Some s \<Rightarrow> PTimestamp tz s)"
| "cell (FloatCol vs) i = PFloat (vs ! i)"
| "cell (IntCol vs) i = PInt (vs ! i)"
| "cell (ObjectCol vs) i = vs ! i"

definition row_at :: "dataframe \<Rightarrow> nat \<Rightarrow> (string \<times> pyobj) list" where
  "row_at d i = map (\<lambda>(k, c). (k, cell c i)) (df_cols d)"

text \<open>
  An empty container in the ordinary sense of the word: a table or column without
  entries, a mapping without keys, or another object that reports itself empty.
\<close>

fun empty_container :: "pydata \<Rightarrow> bool" where
  "empty_container PyNone = False"
| "empty_container (DataFrame d) = df_empty d"
| "empty_container (Series s) = series_empty s"
| "empty_container (Dict kvs) = (kvs = [])"
| "empty_container (Other e) = (e = Some True)"

subsection \<open>\<open>remove_timezone\<close>\<close>

text \<open>
  \<open>tz_localize(None)\<close> removes the zone and keeps the local wall-clock reading, which is
  what the values of this model are. On values without a zone it changes nothing.
\<close>

fun index_tz_localize_none :: "pd_index \<Rightarrow> pd_index" where
  "index_tz_localize_none (DatetimeIndex tz vs) = DatetimeIndex None vs"
| "index_tz_localize_none ix = ix"

fun dt_tz_localize_none :: "coldata \<Rightarrow> coldata" where
  "dt_tz_localize_none (DatetimeCol tz vs) = DatetimeCol None vs"
| "dt_tz_localize_none c = c"

text \<open>\<open>isinstance(df.index, pd.DatetimeIndex)\<close> and \<open>df.index.tz is not None\<close>\<close>

fun is_datetime_index :: "pd_index \<Rightarrow> bool" where
  "is_datetime_index (DatetimeIndex tz vs) = True"
| "is_datetime_index ix = False"

fun index_tz :: "pd_index \<Rightarrow> tzname option" where
  "index_tz (DatetimeIndex tz vs) = tz"
| "index_tz ix = None"

text \<open>
  The columns that \<open>select_dtypes\<close> picks for the list \<open>datetime64[ns]\<close>,
  \<open>datetime64[ns, UTC]\<close>, \<open>datetime64[ns, US/Eastern]\<close>, and for \<open>object\<close>.
\<close>

fun is_listed_datetime :: "coldata \<Rightarrow> bool" where
  "is_listed_datetime (DatetimeCol None vs) = True"
| "is_listed_datetime (DatetimeCol (Some z) vs) = (z = ''UTC'' \<or> z = ''US/Eastern'')"
| "is_listed_datetime c = False"

fun is_object :: "coldata \<Rightarrow> bool" where
  "is_object (ObjectCol vs) = True"
| "is_object c = False"

definition select_dtypes :: "(coldata \<Rightarrow> bool) \<Rightarrow> (string \<times> coldata) list \<Rightarrow> string list" where
  "select_dtypes want cols = map fst (filter (\<lambda>(n, c). want c) cols)"

text \<open>\<open>pd.api.types.is_datetime64_any_dtype\<close> looks at the declared type, not at the values.\<close>

fun is_datetime64_any_dtype :: "coldata \<Rightarrow> bool" where
  "is_datetime64_any_dtype (DatetimeCol tz vs) = True"
| "is_datetime64_any_dtype c = False"

fun col_tz :: "coldata \<Rightarrow> tzname option" where
  "col_tz (DatetimeCol tz vs) = tz"
| "col_tz c = None"

text \<open>
  \<open>df[col]\<close> read and assigned. A label that the table lacks raises \<open>KeyError\<close>. The
  model is that of a table in which every label stands on one column, as in the tables of
  the provider; the properties below are stated for such tables.
\<close>

definition getcol :: "(string \<times> coldata) list \<Rightarrow> string \<Rightarrow> coldata option" where
  "getcol cols col = map_of cols col"

definition setcol :: "string \<Rightarrow> coldata \<Rightarrow> (string \<times> coldata) list \<Rightarrow> (string \<times> coldata) list" where
  "setcol col v cols = map (\<lambda>(n, c). if n = col then (n, v) else (n, c)) cols"

text \<open>
  The loop over \<open>datetime_cols\<close>. \<open>pd.to_datetime\<close> returns a datetime column as it is.
\<close>

fun datetime_loop :: "string list \<Rightarrow> (string \<times> coldata) list \<Rightarrow> exn + (string \<times> coldata) list" where
  "datetime_loop [] cols = Inr cols"
| "datetime_loop (col # rest) cols =
     (case getcol cols col of
        None \<Rightarrow> Inl KeyError
      | Some c \<Rightarrow> datetime_loop rest (setcol col (dt_tz_localize_none c) cols))"

text \<open>
  The loop over \<open>object_cols\<close>. \<open>to_date\<close> stands for \<open>pd.to_datetime(df[col]).dt.date\<close>,
  the conversion of pandas, which returns the column of calendar dates or raises; the
  handler catches \<open>ValueError\<close> and \<open>TypeError\<close> and goes on with the next column.
\<close>

fun object_loop ::
  "(coldata \<Rightarrow> exn + coldata) \<Rightarrow> string list \<Rightarrow> (string \<times> coldata) list
     \<Rightarrow> exn + (string \<times> coldata) list" where
  "object_loop to_date [] cols = Inr cols"
| "object_loop to_date (col # rest) cols =
     (case getcol cols col of
        None \<Rightarrow> Inl KeyError
      | Some c \<Rightarrow>
          if is_datetime64_any_dtype c then
            (case to_date c of
               Inr c' \<Rightarrow> object_loop to_date rest (setcol col c' cols)
             | Inl e \<Rightarrow>
                 if e = ValueError \<or> e = TypeError then object_loop to_date rest cols
                 else Inl e)
          else object_loop to_date rest cols)"

definition remove_timezone_frame ::
  "(coldata \<Rightarrow> exn + coldata) \<Rightarrow> dataframe \<Rightarrow> exn + dataframe" where
  "remove_timezone_frame to_date df =
     (let df1 = (if is_datetime_index (df_index df) \<and> index_tz (df_index df) \<noteq> None
                 then df\<lparr>df_index := index_tz_localize_none (df_index df)\<rparr> else df);
          datetime_cols = select_dtypes is_listed_datetime (df_cols df1)
      in case datetime_loop datetime_cols (df_cols df1) of
           Inl e \<Rightarrow> Inl e
         | Inr cols2 \<Rightarrow>
             (case object_loop to_date (select_dtypes is_object cols2) cols2 of
                Inl e \<Rightarrow> Inl e
              | Inr cols3 \<Rightarrow> Inr (df1\<lparr>df_cols := cols3\<rparr>)))"

definition remove_timezone_series :: "series \<Rightarrow> series" where
  "remove_timezone_series s =
     (let s1 = (if is_datetime_index (s_index s) \<and> index_tz (s_index s) \<noteq> None
                then s\<lparr>s_index := index_tz_localize_none (s_index s)\<rparr> else s)
      in if is_datetime64_any_dtype (s_data s1) then
           (if col_tz (s_data s1) \<noteq> None then s1\<lparr>s_data := dt_tz_localize_none (s_data s1)\<rparr>
            else s1)
         else s1)"

text \<open>
  \<open>remove_timezone\<close>. The script passes none, a table or a column. A mapping is copied
  and returned; for any other object the call of \<open>copy\<close> decides, taken here to fail as
  it does for a number or a string.
\<close>

fun remove_timezone :: "(coldata \<Rightarrow> exn + coldata) \<Rightarrow> pydata \<Rightarrow> exn + pydata" where
  "remove_timezone to_date PyNone = Inr PyNone"
| "remove_timezone to_date (DataFrame df) =
     (case remove_timezone_frame to_date df of Inl e \<Rightarrow> Inl e | Inr df' \<Rightarrow> Inr (DataFrame df'))"
| "remove_timezone to_date (Series s) = Inr (Series (remove_timezone_series s))"
| "remove_timezone to_date (Dict kvs) = Inr (Dict kvs)"
| "remove_timezone to_date (Other e) = Inl AttributeError"

text \<open>
  What the loop over \<open>datetime_cols\<close> amounts to when the labels are unique: every listed
  column loses its zone, every other column stays.
\<close>

definition strip_columns :: "(string \<times> coldata) list \<Rightarrow> (string \<times> coldata) list" where
  "strip_columns cols =
     map (\<lambda>(n, c). (n, if is_listed_datetime c then dt_tz_localize_none c else c)) cols"

text \<open>Column labels are unique in every table the provider returns.\<close>

fun unique_labels :: "pydata \<Rightarrow> bool" where
  "unique_labels (DataFrame df) = distinct (map fst (df_cols df))"
| "unique_labels d = True"

text \<open>The calendar dates of an index, as the wall clock reads them.\<close>

definition date_of :: "stamp \<Rightarrow> int \<times> nat \<times> nat" where
  "date_of s = (year s, month s, day s)"

fun index_dates :: "pd_index \<Rightarrow> (int \<times> nat \<times> nat) option list" where
  "index_dates (DatetimeIndex tz vs) = map (map_option date_of) vs"
| "index_dates ix = []"

section \<open>Interactive prompts\<close>

subsection \<open>Strings\<close>

text \<open>
  Characters are bytes; the whitespace of \<open>str.strip\<close> and the case mapping of
  \<open>str.lower\<close> and \<open>str.upper\<close> are modelled on ASCII.
\<close>

definition isspace :: "char \<Rightarrow> bool" where
  "isspace c = (let n = (of_char c :: nat) in (9 \<le> n \<and> n \<le> 13) \<or> (28 \<le> n \<and> n \<le> 32))"

definition strip :: "string \<Rightarrow> string" where
  "strip s = rev (dropWhile isspace (rev (dropWhile isspace s)))"

definition lower_char :: "char \<Rightarrow> char" where
  "lower_char c = (let n = (of_char c :: nat) in if 65 \<le> n \<and> n \<le> 90 then char_of (n + 32) else c)"

definition upper_char :: "char \<Rightarrow> char" where
  "upper_char c = (let n = (of_char c :: nat) in if 97 \<le> n \<and> n \<le> 122 then char_of (n - 32) else c)"

definition lower :: "string \<Rightarrow> string" where
  "lower s = map lower_char s"

definition upper :: "string \<Rightarrow> string" where
  "upper s = map upper_char s"

text \<open>\<open>s.split(sep)\<close> for a separator of one character: never the empty list.\<close>

fun split_on :: "char \<Rightarrow> string \<Rightarrow> string list" where
  "split_on sep [] = [[]]"
| "split_on sep (c # cs) =
     (if c = sep then [] # split_on sep cs
      else (case split_on sep cs of w # ws \<Rightarrow> (c # w) # ws | [] \<Rightarrow> [[c]]))"

text \<open>\<open>s.split()\<close>: the words between runs of whitespace.\<close>

fun split_words :: "string \<Rightarrow> string \<Rightarrow> string list" where
  "split_words w [] = (if w = [] then [] else [rev w])"
| "split_words w (c # cs) =
     (if isspace c then (if w = [] then split_words [] cs else rev w # split_words [] cs)
      else split_words (c # w) cs)"

definition split_ws :: "string \<Rightarrow> string list" where
  "split_ws s = split_words [] s"

text \<open>
  \<open>int(s)\<close> in base 10: surrounding whitespace, an optional sign, then digits, where one
  underscore may stand between two digits. \<open>None\<close> is the \<open>ValueError\<close>.
\<close>

definition is_digit :: "char \<Rightarrow> bool" where
  "is_digit c = (let n = (of_char c :: nat) in 48 \<le> n \<and> n \<le> 57)"

definition digit_val :: "char \<Rightarrow> int" where
  "digit_val c = int (of_char c) - 48"

fun int_digits :: "int \<Rightarrow> bool \<Rightarrow> string \<Rightarrow> int option" where
  "int_digits acc prev [] = (if prev then Some acc else None)"
| "int_digits acc prev (c # cs) =
     (if is_digit c then int_digits (acc * 10 + digit_val c) True cs
      else if c = CHR ''_'' \<and> prev then
        (case cs of
           [] \<Rightarrow> None
         | d # ds \<Rightarrow> if is_digit d then int_digits acc False cs else None)
      else None)"

definition py_int :: "string \<Rightarrow> int option" where
  "py_int s =
     (case strip s of
        [] \<Rightarrow> None
      | c # cs \<Rightarrow>
          if c = CHR ''-'' then map_option uminus (int_digits 0 False cs)
          else if c = CHR ''+'' then int_digits 0 False cs
          else int_digits 0 False (c # cs))"

subsection \<open>\<open>safe_input\<close> and \<open>select_data_types\<close>\<close>

text \<open>
  Standard input is the list of the lines still to be read. A prompt ends the process
  (\<open>SystemExit\<close> with its code), finds no line (\<open>EOFError\<close>), or returns a value and the
  lines that remain.
\<close>

datatype 'a io = SystemExit nat | EOFError | Return 'a "string list"

fun safe_input :: "string list \<Rightarrow> string io" where
  "safe_input [] = EOFError"
| "safe_input (v # rest) = (if lower (strip v) = ''exit'' then SystemExit 0 else Return v rest)"

definition DATA_TYPE_KEYS :: "string list" where
  "DATA_TYPE_KEYS =
     [''historical'', ''financials'', ''quarterly_financials'', ''balance_sheet'',
      ''quarterly_balance_sheet'', ''cashflow'', ''quarterly_cashflow'', ''dividends'',
      ''splits'', ''info'']"

text \<open>The line that \<open>select_data_types\<close> prints about its result.\<close>

datatype selection_message =
    SelectedAll
  | Selected "string list"
  | InvalidSelection              \<comment> \<open>\<open>Invalid selection, defaulting to all data types\<close>\<close>

definition selected_types_of :: "int list \<Rightarrow> string list" where
  "selected_types_of indices =
     map (\<lambda>i. DATA_TYPE_KEYS ! nat i)
       (filter (\<lambda>i. 0 \<le> i \<and> i < int (length DATA_TYPE_KEYS)) indices)"

definition select_data_types :: "string list \<Rightarrow> (selection_message \<times> string list) io" where
  "select_data_types stdin =
     (case safe_input stdin of
        SystemExit code \<Rightarrow> SystemExit code
      | EOFError \<Rightarrow> EOFError
      | Return v rest \<Rightarrow>
          (let selected = strip v in
           if selected = [] \<or> selected = ''0'' then Return (SelectedAll, DATA_TYPE_KEYS) rest
           else
             (case those (map (\<lambda>x. py_int (strip x)) (split_on CHR '','' selected)) of
                None \<Rightarrow> Return (InvalidSelection, DATA_TYPE_KEYS) rest
              | Some ns \<Rightarrow>
                  (let selected_types = selected_types_of (map (\<lambda>n. n - 1) ns) in
                   if selected_types \<noteq> [] then Return (Selected selected_types, selected_types) rest
                   else Return (InvalidSelection, DATA_TYPE_KEYS) rest))))"

subsection \<open>The prompts of the main program\<close>

record args =
  tickers :: "string list"
  period :: string
  output_dir :: string    \<comment> \<open>\<open>args.output\<close>\<close>

record config =
  default_period :: string
  output_directory :: string
  data_types :: "string list"
  retries :: int

text \<open>
  Lines 348 to 391: the four prompts in their order. \<open>abspath\<close> is \<open>os.path.abspath\<close>.
  The result is the configuration and the arguments with which the batch starts.
\<close>

definition asks_output :: "(string \<Rightarrow> string) \<Rightarrow> config \<Rightarrow> args \<Rightarrow> bool" where
  "asks_output abspath cfg a =
     (output_dir a = [] \<or> abspath (output_dir a) = abspath (output_directory cfg))"

definition prompt_output ::
  "(string \<Rightarrow> string) \<Rightarrow> config \<Rightarrow> args \<Rightarrow> string list \<Rightarrow> (config \<times> args) io" where
  "prompt_output abspath cfg a stdin =
     (let resolved_default_dir = abspath (output_directory cfg) in
      if asks_output abspath cfg a then
        (case safe_input stdin of
           SystemExit code \<Rightarrow> SystemExit code
         | EOFError \<Rightarrow> EOFError
         | Return v rest \<Rightarrow>
             (let user_dir = strip v in
              if user_dir \<noteq> [] then
                Return (cfg\<lparr>output_directory := user_dir\<rparr>, a\<lparr>output_dir := user_dir\<rparr>) rest
              else
                Return (cfg\<lparr>output_directory := resolved_default_dir\<rparr>,
                        a\<lparr>output_dir := resolved_default_dir\<rparr>) rest))
      else Return (cfg, a) stdin)"

definition prompt_tickers :: "config \<Rightarrow> args \<Rightarrow> string list \<Rightarrow> args io" where
  "prompt_tickers cfg a stdin =
     (if tickers a = [] then
        (case safe_input stdin of
           SystemExit code \<Rightarrow> SystemExit code
         | EOFError \<Rightarrow> EOFError
         | Return tickers_input rest \<Rightarrow>
             (case safe_input rest of
                SystemExit code \<Rightarrow> SystemExit code
              | EOFError \<Rightarrow> EOFError
              | Return period_input rest' \<Rightarrow>
                  Return (a\<lparr>tickers := split_ws (upper tickers_input),
                            period := (if period_input \<noteq> [] then period_input
                                       else default_period cfg)\<rparr>) rest'))
      else Return a stdin)"

definition main_prompts ::
  "(string \<Rightarrow> string) \<Rightarrow> config \<Rightarrow> args \<Rightarrow> string list \<Rightarrow> (config \<times> args) io" where
  "main_prompts abspath cfg a stdin =
     (case select_data_types stdin of
        SystemExit code \<Rightarrow> SystemExit code
      | EOFError \<Rightarrow> EOFError
      | Return (msg, types) rest \<Rightarrow>
          (case prompt_tickers (cfg\<lparr>data_types := types\<rparr>) a rest of
             SystemExit code \<Rightarrow> SystemExit code
           | EOFError \<Rightarrow> EOFError
           | Return a' rest' \<Rightarrow> prompt_output abspath (cfg\<lparr>data_types := types\<rparr>) a' rest'))"

text \<open>How many lines the prompts read when none of them ends the process.\<close>

definition prompt_count :: "(string \<Rightarrow> string) \<Rightarrow> config \<Rightarrow> args \<Rightarrow> nat" where
  "prompt_count abspath cfg a =
     1 + (if tickers a = [] then 2 else 0) + (if asks_output abspath cfg a then 1 else 0)"

definition is_sentinel :: "string \<Rightarrow> bool" where
  "is_sentinel v = (lower (strip v) = ''exit'')"

text \<open>
  The reading of the menu's input by the words of the specification: a list, separated by
  commas, of indices of the menu counted from 1. \<open>menu_choice\<close> is the data type that a
  token selects, if it is such an index.
\<close>

definition menu_tokens :: "string \<Rightarrow> string list" where
  "menu_tokens v = split_on CHR '','' (strip v)"

definition is_integer :: "string \<Rightarrow> bool" where
  "is_integer x = (py_int (strip x) \<noteq> None)"

definition menu_choice :: "string \<Rightarrow> string option" where
  "menu_choice x =
     (case py_int (strip x) of
        None \<Rightarrow> None
      | Some n \<Rightarrow>
          if 1 \<le> n \<and> n \<le> int (length DATA_TYPE_KEYS) then Some (DATA_TYPE_KEYS ! nat (n - 1))
          else None)"

definition is_menu_index :: "string \<Rightarrow> bool" where
  "is_menu_index x = (menu_choice x \<noteq> None)"

definition valid_selection :: "string \<Rightarrow> bool" where
  "valid_selection v = list_all is_menu_index (menu_tokens v)"

section \<open>Statistics\<close>

text \<open>
  A price is a float; \<open>None\<close> is NaN, and the finite values are taken as real numbers, so
  that rounding is left out. The historical series is the table of its rows, each with its
  date (the index, without zone after \<open>remove_timezone\<close>) and the five columns.
\<close>

type_synonym price = "real option"

record bar =
  Date :: stamp
  Open :: price
  High :: price
  Low :: price
  Close :: price
  Volume :: price

text \<open>\<open>.iloc[-1]\<close> and \<open>.iloc[0]\<close> raise \<open>IndexError\<close> on a column without rows.\<close>

definition iloc_last :: "'a list \<Rightarrow> exn + 'a" where
  "iloc_last xs = (if xs = [] then Inl IndexError else Inr (last xs))"

definition iloc_first :: "'a list \<Rightarrow> exn + 'a" where
  "iloc_first xs = (case xs of [] \<Rightarrow> Inl IndexError | x # _ \<Rightarrow> Inr x)"

text \<open>\<open>.tail(n)\<close>: the last \<open>n\<close> rows, all rows when there are fewer.\<close>

definition tail :: "nat \<Rightarrow> 'a list \<Rightarrow> 'a list" where
  "tail n xs = drop (length xs - n) xs"

text \<open>The values of a column that are not NaN; \<open>.max()\<close> and \<open>.min()\<close> skip NaN.\<close>

fun observed :: "price list \<Rightarrow> real list" where
  "observed [] = []"
| "observed (None # xs) = observed xs"
| "observed (Some v # xs) = v # observed xs"

definition series_max :: "price list \<Rightarrow> price" where
  "series_max xs = (case observed xs of [] \<Rightarrow> None | v # vs \<Rightarrow> Some (fold max vs v))"

definition series_min :: "price list \<Rightarrow> price" where
  "series_min xs = (case observed xs of [] \<Rightarrow> None | v # vs \<Rightarrow> Some (fold min vs v))"

definition high_52w :: "bar list \<Rightarrow> price" where
  "high_52w hist_data = series_max (tail 252 (map High hist_data))"

definition low_52w :: "bar list \<Rightarrow> price" where
  "low_52w hist_data = series_min (tail 252 (map Low hist_data))"

text \<open>
  \<open>.rolling(window=w).mean()\<close>: at each row the mean of the values in the window that
  ends there. \<open>min_periods\<close> is not given, so it is the window size: with fewer values
  than that in the window (too few rows, or NaN among them) the entry is NaN.
\<close>

definition window_mean :: "nat \<Rightarrow> price list \<Rightarrow> price" where
  "window_mean w win =
     (let obs = observed win in
      if length obs < w \<or> obs = [] then None else Some (sum_list obs / real (length obs)))"

definition rolling_mean :: "nat \<Rightarrow> price list \<Rightarrow> price list" where
  "rolling_mean w xs = map (\<lambda>i. window_mean w (tail w (take (Suc i) xs))) [0..<length xs]"

definition moving_average :: "nat \<Rightarrow> bar list \<Rightarrow> exn + price" where
  "moving_average w hist_data = iloc_last (rolling_mean w (map Close hist_data))"

text \<open>
  \<open>.loc[str(year)]\<close> on a column with a date index: the rows of that year. When the index
  ascends and the year lies before its first or after its last entry, pandas raises
  \<open>KeyError\<close>; otherwise the rows found are returned, which may be none.
\<close>

definition stamp_le :: "stamp \<Rightarrow> stamp \<Rightarrow> bool" where
  "stamp_le a b =
     (year a < year b \<or> (year a = year b \<and>
       (month a < month b \<or> (month a = month b \<and>
         (day a < day b \<or> (day a = day b \<and> nanos a \<le> nanos b))))))"

definition is_monotonic_increasing :: "stamp list \<Rightarrow> bool" where
  "is_monotonic_increasing ix = sorted_wrt stamp_le ix"

definition loc_year :: "int \<Rightarrow> (stamp \<times> 'a) list \<Rightarrow> exn + 'a list" where
  "loc_year y rows =
     (let ix = map fst rows in
      if is_monotonic_increasing ix \<and> ix \<noteq> [] \<and> (y < year (hd ix) \<or> year (last ix) < y)
      then Inl KeyError
      else Inr (map snd (filter (\<lambda>(d, v). year d = y) rows)))"

definition ytd_start_price :: "int \<Rightarrow> bar list \<Rightarrow> exn + price" where
  "ytd_start_price now_year hist_data =
     (case loc_year now_year (map (\<lambda>b. (Date b, Close b)) hist_data) of
        Inl e \<Rightarrow> Inl e
      | Inr rows \<Rightarrow> iloc_first rows)"

text \<open>
  \<open>analyze_stock_data\<close>, with \<open>now_year\<close> for \<open>datetime.now().year\<close>. The metrics kept are
  those that the table holds as numbers; the percentages, which the script formats as
  text from floating-point results and which raise nothing, are left out.
\<close>

record analysis =
  current_price :: price
  week52_high :: price
  week52_low :: price
  ma_50 :: price
  ma_200 :: price

definition analyze_stock_data :: "int \<Rightarrow> bar list \<Rightarrow> exn + analysis" where
  "analyze_stock_data now_year hist_data =
     (case iloc_last (map Close hist_data) of
        Inl e \<Rightarrow> Inl e
      | Inr latest_price \<Rightarrow>
          (case ytd_start_price now_year hist_data of
             Inl e \<Rightarrow> Inl e
           | Inr ytd_start \<Rightarrow>
               (case moving_average 50 hist_data of
                  Inl e \<Rightarrow> Inl e
                | Inr m50 \<Rightarrow>
                    (case moving_average 200 hist_data of
                       Inl e \<Rightarrow> Inl e
                     | Inr m200 \<Rightarrow>
                         Inr \<lparr>current_price = latest_price,
                              week52_high = high_52w hist_data,
                              week52_low = low_52w hist_data,
                              ma_50 = m50, ma_200 = m200\<rparr>))))"

definition has_row_in_year :: "int \<Rightarrow> bar list \<Rightarrow> bool" where
  "has_row_in_year y hist_data = (\<exists>b \<in> set hist_data. year (Date b) = y)"

text \<open>The last \<open>n\<close> rows of a table, all of them when there are fewer.\<close>

definition last_rows :: "nat \<Rightarrow> 'a list \<Rightarrow> 'a list" where
  "last_rows n xs = rev (take n (rev xs))"

section \<open>Retries and the batch\<close>

text \<open>
  One run of the body of \<open>analyze_stock\<close> depends on the provider and on the libraries
  that draw and write. \<open>history w i k\<close> is what \<open>stock.history\<close> does at attempt \<open>k\<close> for
  the ticker at position \<open>i\<close>; \<open>later_steps w i k\<close> is the exception, if any, that leaves
  the steps after the check of the history. The handler of the body logs the exception
  and raises it again.
\<close>

record world =
  history :: "nat \<Rightarrow> nat \<Rightarrow> exn + bar list"
  later_steps :: "nat \<Rightarrow> nat \<Rightarrow> exn option"

definition analyze_stock_body :: "world \<Rightarrow> nat \<Rightarrow> nat \<Rightarrow> exn + unit" where
  "analyze_stock_body w ticker_idx attempt =
     (case history w ticker_idx attempt of
        Inl e \<Rightarrow> Inl e
      | Inr hist_data \<Rightarrow>
          if hist_data = [] then Inl ValueError
          else (case later_steps w ticker_idx attempt of Some e \<Rightarrow> Inl e | None \<Rightarrow> Inr ()))"

text \<open>
  The decorator \<open>@retry(stop=stop_after_attempt(n), wait=...)\<close> of tenacity, without
  \<open>reraise\<close>: an attempt that returns ends the call; an exception that is not an
  \<open>Exception\<close> passes through; otherwise, when the attempt's number has reached \<open>n\<close>, the
  call raises \<open>RetryError\<close>, and else the next attempt runs after the wait.
\<close>

fun is_Exception :: "exn \<Rightarrow> bool" where
  "is_Exception KeyboardInterrupt = False"
| "is_Exception e = True"

function retry :: "int \<Rightarrow> (nat \<Rightarrow> exn + 'a) \<Rightarrow> nat \<Rightarrow> exn + 'a" where
  "retry n f attempt =
     (case f attempt of
        Inr v \<Rightarrow> Inr v
      | Inl e \<Rightarrow>
          if \<not> is_Exception e then Inl e
          else if n \<le> int attempt then Inl (RetryError e)
          else retry n f (Suc attempt))"
  by pat_completeness auto
termination
  by (relation "measure (\<lambda>(n, f, attempt). nat (n - int attempt))") auto

definition analyze_stock :: "world \<Rightarrow> int \<Rightarrow> nat \<Rightarrow> exn + unit" where
  "analyze_stock w n ticker_idx = retry n (analyze_stock_body w ticker_idx) 1"

text \<open>
  Lines 397 to 405: the loop over the tickers and the banner after it. The result is what
  was printed and the exception, if any, that ended the process.
\<close>

datatype printed =
    Analyzing nat nat string
  | ErrorProcessing string exn
  | AnalysisComplete

definition caught_by_batch :: "exn \<Rightarrow> bool" where
  "caught_by_batch e = (e = ValueError \<or> e = TypeError \<or> e = KeyError \<or> e = OSError)"

fun batch_loop :: "(nat \<Rightarrow> exn + unit) \<Rightarrow> nat \<Rightarrow> nat \<Rightarrow> string list \<Rightarrow> printed list \<times> exn option" where
  "batch_loop analyze n_total ticker_idx [] = ([AnalysisComplete], None)"
| "batch_loop analyze n_total ticker_idx (ticker_symbol # rest) =
     (case analyze ticker_idx of
        Inr r \<Rightarrow>
          (case batch_loop analyze n_total (Suc ticker_idx) rest of
             (out, ex) \<Rightarrow> (Analyzing ticker_idx n_total ticker_symbol # out, ex))
      | Inl e \<Rightarrow>
          if caught_by_batch e then
            (case batch_loop analyze n_total (Suc ticker_idx) rest of
               (out, ex) \<Rightarrow>
                 (Analyzing ticker_idx n_total ticker_symbol # ErrorProcessing ticker_symbol e # out, ex))
          else ([Analyzing ticker_idx n_total ticker_symbol], Some e))"

definition run_batch :: "world \<Rightarrow> int \<Rightarrow> string list \<Rightarrow> printed list \<times> exn option" where
  "run_batch w n symbols = batch_loop (analyze_stock w n) (length symbols) 1 symbols"


section \<open>Example inputs\<close>

text \<open>A conversion to calendar dates, for the examples of \<open>remove_timezone\<close>.\<close>

fun date_of_obj :: "pyobj \<Rightarrow> pyobj option" where
  "date_of_obj (PTimestamp tz s) = Some (PDate (year s) (month s) (day s))"
| "date_of_obj PNaT = Some PNaT"
| "date_of_obj PNone = Some PNaT"
| "date_of_obj v = None"

definition to_date_example :: "coldata \<Rightarrow> exn + coldata" where
  "to_date_example c =
     (case c of
        ObjectCol vs \<Rightarrow>
          (case those (map date_of_obj vs) of
             None \<Rightarrow> Inl ValueError
           | Some ds \<Rightarrow> Inr (ObjectCol ds))
      | DatetimeCol tz vs \<Rightarrow>
          Inr (ObjectCol (map (\<lambda>v. case v of None \<Rightarrow> PNaT
                                      | Some s \<Rightarrow> PDate (year s) (month s) (day s)) vs))
      | _ \<Rightarrow> Inl TypeError)"

definition AAPL_info :: "(string \<times> pyobj) list" where
  "AAPL_info =
     [(''symbol'', PStr ''AAPL''), (''beta'', PFloat (Some 1.25)),
      (''fullTimeEmployees'', PInt 164000)]"

definition dividends_frame :: dataframe where
  "dividends_frame =
     \<lparr>df_index = DatetimeIndex (Some ''America/New_York'')
        [Some \<lparr>year = 2024, month = 2, day = 9, nanos = 0\<rparr>,
         Some \<lparr>year = 2024, month = 5, day = 10, nanos = 0\<rparr>],
      df_cols = [(''Dividends'', FloatCol [Some 0.24, Some 0.25])]\<rparr>"

definition no_rows_frame :: dataframe where
  "no_rows_frame = \<lparr>df_index = DatetimeIndex None [], df_cols = [(''Dividends'', FloatCol [])]\<rparr>"

definition history_frame :: dataframe where
  "history_frame =
     \<lparr>df_index = DatetimeIndex (Some ''America/New_York'')
        [Some \<lparr>year = 2024, month = 1, day = 2, nanos = 0\<rparr>,
         Some \<lparr>year = 2024, month = 1, day = 3, nanos = 0\<rparr>],
      df_cols = [(''Close'', FloatCol [Some 185.64, Some 184.25]),
                 (''Updated'', DatetimeCol (Some ''UTC'')
                    [Some \<lparr>year = 2024, month = 1, day = 2, nanos = 75600000000000\<rparr>, None])]\<rparr>"

definition events_frame :: dataframe where
  "events_frame =
     \<lparr>df_index = RangeIndex 1,
      df_cols = [(''when'', ObjectCol [PTimestamp None \<lparr>year = 2024, month = 1, day = 2, nanos = 0\<rparr>])]\<rparr>"

definition default_config :: config where
  "default_config =
     \<lparr>default_period = ''2y'', output_directory = ''/home/user/Analysis'',
      data_types = [''financials'', ''quarterly_financials'', ''balance_sheet'',
                    ''quarterly_balance_sheet'', ''cashflow'', ''quarterly_cashflow'',
                    ''dividends'', ''splits'', ''info''],
      retries = 3\<rparr>"

definition no_args :: args where
  "no_args = \<lparr>tickers = [], period = ''2y'', output_dir = ''/home/user/Analysis''\<rparr>"

definition day_stamp :: "int \<Rightarrow> nat \<Rightarrow> stamp" where
  "day_stamp y i = \<lparr>year = y, month = 1 + i div 28, day = 1 + i mod 28, nanos = 0\<rparr>"

definition flat_bar :: "stamp \<Rightarrow> real \<Rightarrow> bar" where
  "flat_bar d c =
     \<lparr>Date = d, Open = Some c, High = Some (c + 1), Low = Some (c - 1), Close = Some c,
      Volume = Some 1000\<rparr>"

text \<open>Three hundred daily rows whose close rises by one from 100.\<close>

definition linear_history :: "bar list" where
  "linear_history = map (\<lambda>i. flat_bar (day_stamp 2024 i) (100 + real i)) [0..<300]"

definition stale_history :: "bar list" where
  "stale_history = [flat_bar (day_stamp 2024 0) 100, flat_bar (day_stamp 2024 1) 102]"

definition gap_year_history :: "bar list" where
  "gap_year_history = [flat_bar (day_stamp 2024 0) 100, flat_bar (day_stamp 2026 0) 110]"

definition nan_history :: "bar list" where
  "nan_history = [flat_bar (day_stamp 2024 0) 100, (flat_bar (day_stamp 2024 1) 102)\<lparr>Close := None\<rparr>]"

text \<open>A provider with no history for the first ticker of the batch, at every attempt.\<close>

definition delisted_world :: world where
  "delisted_world =
     \<lparr>history = (\<lambda>i k. if i = 1 then Inr [] else Inr stale_history),
      later_steps = (\<lambda>i k. None)\<rparr>"

section \<open>Properties of \<open>handle_data\<close>\<close>

lemma cell_infer_column: "cell (infer_column v) 0 = v"
  by (cases v) simp_all

lemma row_at_frame_of_record: "row_at (frame_of_record kvs) 0 = kvs"
  by (induction kvs) (auto simp: row_at_def frame_of_record_def cell_infer_column)

text \<open>
  C5 as it is stated fails at the empty mapping tagged \<open>info\<close>: the mapping is an empty
  container, and the result is not none but the table of one row and no column.
\<close>

theorem handle_data_empty_dict_info:
  "empty_container (Dict []) \<and>
   handle_data (Dict []) (Some ''info'') = DataFrame \<lparr>df_index = RangeIndex 1, df_cols = []\<rparr> \<and>
   handle_data (Dict []) (Some ''info'') \<noteq> PyNone"
  by (simp add: frame_of_record_def)

text \<open>
  C5, amended: \<open>handle_data\<close> returns none for none and for every input whose attribute
  \<open>empty\<close> is true (a table or column without entries); for every mapping tagged \<open>info\<close>,
  the empty one included, it returns a table of one row, and that row is the mapping; a
  table or column that is not empty is returned as it is; every other input gives none.
\<close>

theorem handle_data_cases:
  "handle_data PyNone ty = PyNone
   \<and> (has_true_empty data \<longrightarrow> handle_data data ty = PyNone)
   \<and> (\<exists>d. handle_data (Dict kvs) (Some ''info'') = DataFrame d
          \<and> index_len (df_index d) = 1 \<and> row_at d 0 = kvs)
   \<and> (is_tabular data \<and> \<not> has_true_empty data \<longrightarrow> handle_data data ty = data)
   \<and> (\<not> is_tabular data \<and> \<not> (ty = Some ''info'' \<and> is_dict data) \<longrightarrow> handle_data data ty = PyNone)"
proof -
  have info: "\<exists>d. handle_data (Dict kvs) (Some ''info'') = DataFrame d
        \<and> index_len (df_index d) = 1 \<and> row_at d 0 = kvs"
    using row_at_frame_of_record [of kvs] by (simp add: frame_of_record_def)
  have tab: "is_tabular data \<and> \<not> has_true_empty data \<longrightarrow> handle_data data ty = data"
    by (cases data) auto
  have other: "\<not> is_tabular data \<and> \<not> (ty = Some ''info'' \<and> is_dict data) \<longrightarrow> handle_data data ty = PyNone"
    by (cases data) auto
  show ?thesis using info tab other by simp
qed

theorem handle_data_cases_witness:
  "has_true_empty (DataFrame no_rows_frame)
   \<and> handle_data (DataFrame no_rows_frame) (Some ''dividends'') = PyNone
   \<and> (\<exists>d. handle_data (Dict AAPL_info) (Some ''info'') = DataFrame d
          \<and> index_len (df_index d) = 1 \<and> row_at d 0 = AAPL_info)
   \<and> is_tabular (DataFrame dividends_frame) \<and> \<not> has_true_empty (DataFrame dividends_frame)
   \<and> handle_data (DataFrame dividends_frame) (Some ''dividends'') = DataFrame dividends_frame
   \<and> \<not> is_tabular (Dict AAPL_info)
   \<and> handle_data (Dict AAPL_info) (Some ''financials'') = PyNone"
proof -
  have e: "has_true_empty (DataFrame no_rows_frame)"
    by (simp add: no_rows_frame_def df_empty_def)
  have t: "is_tabular (DataFrame dividends_frame) \<and> \<not> has_true_empty (DataFrame dividends_frame)"
    by (simp add: dividends_frame_def df_empty_def)
  have o: "\<not> is_tabular (Dict AAPL_info) \<and> \<not> (Some ''financials'' = Some ''info'' \<and> is_dict (Dict AAPL_info))"
    by simp
  from e t o
    handle_data_cases [of "Some ''dividends''" "DataFrame no_rows_frame" AAPL_info]
    handle_data_cases [of "Some ''dividends''" "DataFrame dividends_frame" AAPL_info]
    handle_data_cases [of "Some ''financials''" "Dict AAPL_info" AAPL_info]
  show ?thesis by blast
qed

section \<open>Properties of \<open>remove_timezone\<close>\<close>

lemma getcol_member:
  "distinct (map fst cols) \<Longrightarrow> (n, c) \<in> set cols \<Longrightarrow> getcol cols n = Some c"
  by (simp add: getcol_def)

lemma setcol_labels: "map fst (setcol col v cols) = map fst cols"
  by (induction cols) (auto simp: setcol_def)

lemma setcol_as_map:
  assumes "distinct (map fst cols)" and "(col, c) \<in> set cols"
  shows "map g (setcol col (f c) cols) = map (\<lambda>(n, c'). if n = col then g (n, f c') else g (n, c')) cols"
proof -
  have "\<And>n c'. (n, c') \<in> set cols \<Longrightarrow> n = col \<Longrightarrow> c' = c"
    using assms by (meson eq_key_imp_eq_value)
  then show ?thesis
    unfolding setcol_def by (auto simp: o_def intro!: map_cong split: prod.splits)
qed

lemma datetime_loop_eq:
  "distinct (map fst cols) \<Longrightarrow> distinct names \<Longrightarrow> set names \<subseteq> fst ` set cols \<Longrightarrow>
   datetime_loop names cols =
     Inr (map (\<lambda>(n, c). if n \<in> set names then (n, dt_tz_localize_none c) else (n, c)) cols)"
proof (induction names arbitrary: cols)
  case Nil
  then show ?case by (simp add: case_prod_unfold)
next
  case (Cons col rest)
  then obtain c where c: "(col, c) \<in> set cols" by auto
  with Cons.prems have g: "getcol cols col = Some c" by (simp add: getcol_member)
  let ?cols' = "setcol col (dt_tz_localize_none c) cols"
  have l: "map fst ?cols' = map fst cols" by (rule setcol_labels)
  have d: "distinct (map fst ?cols')" using Cons.prems l by simp
  have s: "set rest \<subseteq> fst ` set ?cols'"
  proof -
    have "fst ` set ?cols' = set (map fst ?cols')" by simp
    also have "\<dots> = fst ` set cols" using l by simp
    finally show ?thesis using Cons.prems by auto
  qed
  have "datetime_loop rest ?cols' =
     Inr (map (\<lambda>(n, c). if n \<in> set rest then (n, dt_tz_localize_none c) else (n, c)) ?cols')"
    using Cons.IH [OF d _ s] Cons.prems by simp
  also have "map (\<lambda>(n, c). if n \<in> set rest then (n, dt_tz_localize_none c) else (n, c)) ?cols'
     = map (\<lambda>(n, c). if n \<in> set (col # rest) then (n, dt_tz_localize_none c) else (n, c)) cols"
    using Cons.prems(2)
    by (subst setcol_as_map [OF Cons.prems(1) c]) (auto intro!: map_cong)
  finally show ?case using g by simp
qed

lemma datetime_loop_select:
  assumes "distinct (map fst cols)"
  shows "datetime_loop (select_dtypes is_listed_datetime cols) cols = Inr (strip_columns cols)"
proof -
  let ?names = "select_dtypes is_listed_datetime cols"
  have dn: "distinct ?names"
    using assms unfolding select_dtypes_def by (rule distinct_map_filter)
  have sub: "set ?names \<subseteq> fst ` set cols"
    unfolding select_dtypes_def by auto
  have mem: "\<And>n c. (n, c) \<in> set cols \<Longrightarrow> (n \<in> set ?names) = is_listed_datetime c"
  proof -
    fix n c assume nc: "(n, c) \<in> set cols"
    have "\<And>c'. (n, c') \<in> set cols \<Longrightarrow> c' = c"
      using assms nc by (meson eq_key_imp_eq_value)
    moreover have "(n \<in> set ?names) = (\<exists>c'. (n, c') \<in> set cols \<and> is_listed_datetime c')"
      unfolding select_dtypes_def by (auto simp: image_iff)
    ultimately show "(n \<in> set ?names) = is_listed_datetime c"
      using nc by blast
  qed
  have "map (\<lambda>(n, c). if n \<in> set ?names then (n, dt_tz_localize_none c) else (n, c)) cols
      = strip_columns cols"
    unfolding strip_columns_def using mem by (auto intro!: map_cong)
  then show ?thesis using datetime_loop_eq [OF assms dn sub] by simp
qed

lemma object_loop_untouched:
  "distinct (map fst cols) \<Longrightarrow> \<forall>n \<in> set names. \<exists>c. (n, c) \<in> set cols \<and> is_object c \<Longrightarrow>
   object_loop to_date names cols = Inr cols"
proof (induction names)
  case Nil
  then show ?case by simp
next
  case (Cons col rest)
  then obtain c where c: "(col, c) \<in> set cols" "is_object c" by auto
  then have "getcol cols col = Some c" using Cons.prems by (simp add: getcol_member)
  moreover have "\<not> is_datetime64_any_dtype c" using c(2) by (cases c) simp_all
  ultimately show ?case using Cons by simp
qed

lemma object_loop_select:
  "distinct (map fst cols) \<Longrightarrow> object_loop to_date (select_dtypes is_object cols) cols = Inr cols"
  by (rule object_loop_untouched) (auto simp: select_dtypes_def)

lemma strip_columns_labels: "map fst (strip_columns cols) = map fst cols"
  by (induction cols) (auto simp: strip_columns_def)

lemma remove_timezone_frame_eq:
  assumes "distinct (map fst (df_cols df))"
  shows "remove_timezone_frame to_date df =
     Inr (df\<lparr>df_index := (if index_tz (df_index df) \<noteq> None
                            then index_tz_localize_none (df_index df) else df_index df),
             df_cols := strip_columns (df_cols df)\<rparr>)"
proof -
  have d2: "distinct (map fst (strip_columns (df_cols df)))"
    using assms by (simp add: strip_columns_labels)
  have ix: "is_datetime_index (df_index df) \<or> index_tz (df_index df) = None"
    by (cases "df_index df") simp_all
  show ?thesis
    unfolding remove_timezone_frame_def Let_def
    using ix by (auto simp: datetime_loop_select [OF assms] object_loop_select [OF d2])
qed

lemma strip_column_twice:
  "(if is_listed_datetime (if is_listed_datetime c then dt_tz_localize_none c else c)
    then dt_tz_localize_none (if is_listed_datetime c then dt_tz_localize_none c else c)
    else (if is_listed_datetime c then dt_tz_localize_none c else c))
   = (if is_listed_datetime c then dt_tz_localize_none c else c)"
  by (cases c) auto

lemma strip_columns_idem: "strip_columns (strip_columns cols) = strip_columns cols"
  unfolding strip_columns_def by (induction cols) (auto simp: strip_column_twice)

lemma remove_timezone_series_idem:
  "remove_timezone_series (remove_timezone_series s) = remove_timezone_series s"
  unfolding remove_timezone_series_def Let_def
  by (cases "s_index s"; cases "s_data s") auto

lemma remove_timezone_frame_idem:
  assumes "distinct (map fst (df_cols df))"
  shows "\<exists>df'. remove_timezone_frame to_date df = Inr df' \<and> remove_timezone_frame to_date df' = Inr df'"
proof -
  define ix' where "ix' = (if index_tz (df_index df) \<noteq> None
                            then index_tz_localize_none (df_index df) else df_index df)"
  define df' where "df' = df\<lparr>df_index := ix', df_cols := strip_columns (df_cols df)\<rparr>"
  have 1: "remove_timezone_frame to_date df = Inr df'"
    unfolding df'_def ix'_def using assms by (rule remove_timezone_frame_eq)
  have c: "df_cols df' = strip_columns (df_cols df)" and i: "df_index df' = ix'"
    by (simp_all add: df'_def)
  have d: "distinct (map fst (df_cols df'))"
    using assms by (simp add: c strip_columns_labels)
  have z: "index_tz ix' = None"
    unfolding ix'_def by (cases "df_index df") auto
  have "remove_timezone_frame to_date df' = Inr (df'\<lparr>df_index := ix', df_cols := strip_columns (df_cols df)\<rparr>)"
    using remove_timezone_frame_eq [OF d, of to_date] by (simp add: c i z strip_columns_idem)
  also have "df'\<lparr>df_index := ix', df_cols := strip_columns (df_cols df)\<rparr> = df'"
    by (simp add: df'_def)
  finally show ?thesis using 1 by blast
qed

text \<open>
  C8: for every table with uniquely labelled columns whose index is a date index with a
  time zone, \<open>remove_timezone\<close> returns a table whose index is still a date index, has no
  zone, and holds the same values, hence the same calendar dates.
\<close>

theorem remove_timezone_index:
  assumes "distinct (map fst (df_cols df))" and "df_index df = DatetimeIndex (Some z) vs"
  shows "\<exists>df'. remove_timezone to_date (DataFrame df) = Inr (DataFrame df')
           \<and> df_index df' = DatetimeIndex None vs
           \<and> index_tz (df_index df') = None
           \<and> index_dates (df_index df') = index_dates (df_index df)"
  using assms by (simp add: remove_timezone_frame_eq)

theorem remove_timezone_index_witness:
  "distinct (map fst (df_cols history_frame))
   \<and> (\<exists>df'. remove_timezone to_date_example (DataFrame history_frame) = Inr (DataFrame df')
           \<and> df_index df' = DatetimeIndex None
                [Some \<lparr>year = 2024, month = 1, day = 2, nanos = 0\<rparr>,
                 Some \<lparr>year = 2024, month = 1, day = 3, nanos = 0\<rparr>]
           \<and> index_tz (df_index df') = None
           \<and> index_dates (df_index df') = index_dates (df_index history_frame))"
proof -
  have d: "distinct (map fst (df_cols history_frame))"
    by (simp add: history_frame_def)
  have i: "df_index history_frame = DatetimeIndex (Some ''America/New_York'')
        [Some \<lparr>year = 2024, month = 1, day = 2, nanos = 0\<rparr>,
         Some \<lparr>year = 2024, month = 1, day = 3, nanos = 0\<rparr>]"
    by (simp add: history_frame_def)
  show ?thesis using d remove_timezone_index [OF d i, of to_date_example] by blast
qed

text \<open>
  C9, on the code: a column of generic type is never converted. Whatever the conversion
  of pandas would return for it, \<open>remove_timezone\<close> leaves every such column of a table
  with uniquely labelled columns as it was, also when its values are timestamps, because
  the test before the conversion reads the declared type of the column.
\<close>

theorem object_column_untouched:
  assumes "distinct (map fst (df_cols df))" and "(n, ObjectCol vs) \<in> set (df_cols df)"
  shows "\<exists>df'. remove_timezone to_date (DataFrame df) = Inr (DataFrame df')
           \<and> getcol (df_cols df') n = Some (ObjectCol vs)"
proof -
  have "(n, ObjectCol vs) \<in> set (strip_columns (df_cols df))"
    using assms(2) unfolding strip_columns_def by force
  moreover have "distinct (map fst (strip_columns (df_cols df)))"
    using assms(1) by (simp add: strip_columns_labels)
  ultimately have "getcol (strip_columns (df_cols df)) n = Some (ObjectCol vs)"
    by (simp add: getcol_member)
  then show ?thesis using assms(1) by (simp add: remove_timezone_frame_eq)
qed

theorem object_column_untouched_witness:
  "to_date_example (ObjectCol [PTimestamp None \<lparr>year = 2024, month = 1, day = 2, nanos = 0\<rparr>])
     = Inr (ObjectCol [PDate 2024 1 2])
   \<and> (\<exists>df'. remove_timezone to_date_example (DataFrame events_frame) = Inr (DataFrame df')
           \<and> getcol (df_cols df') ''when''
              = Some (ObjectCol [PTimestamp None \<lparr>year = 2024, month = 1, day = 2, nanos = 0\<rparr>]))"
proof -
  have d: "distinct (map fst (df_cols events_frame))"
    by (simp add: events_frame_def)
  have m: "(''when'', ObjectCol [PTimestamp None \<lparr>year = 2024, month = 1, day = 2, nanos = 0\<rparr>])
             \<in> set (df_cols events_frame)"
    by (simp add: events_frame_def)
  have c: "to_date_example (ObjectCol [PTimestamp None \<lparr>year = 2024, month = 1, day = 2, nanos = 0\<rparr>])
     = Inr (ObjectCol [PDate 2024 1 2])"
    by (simp add: to_date_example_def)
  show ?thesis using c object_column_untouched [OF d m, of to_date_example] by blast
qed

text \<open>
  C10: for none, and for every table with uniquely labelled columns and every column,
  \<open>remove_timezone\<close> returns a value on which a second application returns that same
  value.
\<close>

theorem remove_timezone_idempotent:
  assumes "unique_labels x" and "x = PyNone \<or> is_tabular x"
  shows "\<exists>y. remove_timezone to_date x = Inr y \<and> remove_timezone to_date y = Inr y"
proof (cases x)
  case (DataFrame df)
  then show ?thesis
    using assms(1) remove_timezone_frame_idem [of df to_date] by auto
next
  case (Series s)
  then show ?thesis by (simp add: remove_timezone_series_idem)
qed (use assms in auto)

theorem remove_timezone_idempotent_witness:
  "unique_labels (DataFrame history_frame) \<and> is_tabular (DataFrame history_frame)
   \<and> (\<exists>y. remove_timezone to_date_example (DataFrame history_frame) = Inr y
          \<and> y \<noteq> DataFrame history_frame
          \<and> remove_timezone to_date_example y = Inr y)"
proof -
  have u: "unique_labels (DataFrame history_frame)"
    by (simp add: history_frame_def)
  have t: "DataFrame history_frame = PyNone \<or> is_tabular (DataFrame history_frame)"
    by simp
  have "\<And>y. remove_timezone to_date_example (DataFrame history_frame) = Inr y \<Longrightarrow> y \<noteq> DataFrame history_frame"
    using u by (auto simp: remove_timezone_frame_eq history_frame_def)
  then show ?thesis
    using u remove_timezone_idempotent [OF u t, of to_date_example] by auto
qed

section \<open>Properties of the prompts\<close>

lemma safe_input_Cons:
  "safe_input (v # rest) = (if is_sentinel v then SystemExit 0 else Return v rest)"
  by (simp add: is_sentinel_def)

lemma those_map:
  "those (map f xs) =
     (if list_all (\<lambda>x. f x \<noteq> None) xs then Some (map (\<lambda>x. the (f x)) xs) else None)"
  by (induction xs) (auto split: option.splits)

lemma selected_types_of_tokens:
  "list_all is_integer xs \<Longrightarrow>
   selected_types_of (map (\<lambda>n. n - 1) (map (\<lambda>x. the (py_int (strip x))) xs))
     = List.map_filter menu_choice xs"
proof (induction xs)
  case Nil
  then show ?case by (simp add: selected_types_of_def map_filter_simps)
next
  case (Cons x xs)
  then obtain n where n: "py_int (strip x) = Some n" by (auto simp: is_integer_def)
  have "(0 \<le> n - 1 \<and> n - 1 < int (length DATA_TYPE_KEYS)) = (1 \<le> n \<and> n \<le> int (length DATA_TYPE_KEYS))"
    by auto
  then show ?case
    using Cons n by (auto simp: selected_types_of_def map_filter_simps menu_choice_def)
qed

lemma select_data_types_Cons:
  "\<exists>r. select_data_types (v # rest) = (if is_sentinel v then SystemExit 0 else Return r rest)"
  by (auto simp: select_data_types_def is_sentinel_def Let_def split: option.splits)

lemma prompt_tickers_given:
  "tickers a \<noteq> [] \<Longrightarrow> prompt_tickers cfg a stdin = Return a stdin"
  by (simp add: prompt_tickers_def)

lemma prompt_tickers_asked:
  "tickers a = [] \<Longrightarrow> \<exists>a'. output_dir a' = output_dir a \<and> prompt_tickers cfg a stdin =
     (case stdin of
        [] \<Rightarrow> EOFError
      | v1 # r \<Rightarrow>
          if is_sentinel v1 then SystemExit 0
          else (case r of
                  [] \<Rightarrow> EOFError
                | v2 # r' \<Rightarrow> if is_sentinel v2 then SystemExit 0 else Return a' r'))"
  by (cases stdin; cases "tl stdin") (auto simp: prompt_tickers_def is_sentinel_def intro: exI [of _ a])

lemma prompt_output_asked:
  "asks_output abspath cfg a \<Longrightarrow> is_sentinel v \<Longrightarrow> prompt_output abspath cfg a (v # rest) = SystemExit 0"
  by (simp add: prompt_output_def is_sentinel_def)

lemma asks_output_cong:
  "output_dir a' = output_dir a \<Longrightarrow> asks_output abspath (cfg\<lparr>data_types := ts\<rparr>) a' = asks_output abspath cfg a"
  by (simp add: asks_output_def)

text \<open>
  C6: the prompts that a run reaches are the first \<open>prompt_count\<close> lines of standard
  input (the menu; the tickers and the period when no ticker was given; the output
  directory when it is asked for). If any of these lines, trimmed and in lower case, is
  \<open>exit\<close>, the main program ends the process with code 0.
\<close>

theorem exit_at_every_prompt:
  assumes "k < prompt_count abspath cfg a" and "k < length stdin" and "is_sentinel (stdin ! k)"
  shows "main_prompts abspath cfg a stdin = SystemExit 0"
proof -
  obtain v0 r0 where st: "stdin = v0 # r0" using assms(2) by (cases stdin) auto
  obtain r where sel: "select_data_types (v0 # r0) = (if is_sentinel v0 then SystemExit 0 else Return r r0)"
    using select_data_types_Cons by blast
  obtain msg types where r: "r = (msg, types)" by (cases r)
  show ?thesis
  proof (cases "is_sentinel v0")
    case True
    then show ?thesis by (simp add: main_prompts_def st sel)
  next
    case n0: False
    then have k0: "k \<noteq> 0" using assms(3) st by (cases "k = 0") auto
    let ?cfg = "cfg\<lparr>data_types := types\<rparr>"
    have m: "main_prompts abspath cfg a stdin =
      (case prompt_tickers ?cfg a r0 of
         SystemExit code \<Rightarrow> SystemExit code
       | EOFError \<Rightarrow> EOFError
       | Return a' rest' \<Rightarrow> prompt_output abspath ?cfg a' rest')"
      using n0 by (simp add: main_prompts_def st sel r)
    show ?thesis
    proof (cases "tickers a = []")
      case False
      then have k1: "k = 1" and ask: "asks_output abspath cfg a"
        using assms(1) k0 by (auto simp: prompt_count_def split: if_splits)
      then obtain v1 r1 where r0: "r0 = v1 # r1" using assms(2) st by (cases r0) auto
      have "is_sentinel v1" using assms(3) st r0 k1 by simp
      then show ?thesis
        using False ask by (simp add: m prompt_tickers_given r0 prompt_output_asked asks_output_cong)
    next
      case True
      then obtain a' where a': "output_dir a' = output_dir a" and
        pt: "prompt_tickers ?cfg a r0 =
          (case r0 of
             [] \<Rightarrow> EOFError
           | v1 # r \<Rightarrow>
               if is_sentinel v1 then SystemExit 0
               else (case r of
                       [] \<Rightarrow> EOFError
                     | v2 # r' \<Rightarrow> if is_sentinel v2 then SystemExit 0 else Return a' r'))"
        using prompt_tickers_asked [of a ?cfg r0] by auto
      obtain v1 r1 where r0: "r0 = v1 # r1" using assms(2) st k0 by (cases r0) auto
      show ?thesis
      proof (cases "is_sentinel v1")
        case True
        then show ?thesis unfolding m pt by (simp add: r0)
      next
        case n1: False
        then have k1: "k \<noteq> 1" using assms(3) st r0 by (cases "k = 1") auto
        then obtain v2 r2 where r1: "r1 = v2 # r2" using assms(2) st r0 k0 by (cases r1) auto
        show ?thesis
        proof (cases "is_sentinel v2")
          case True
          then show ?thesis using n1 unfolding m pt by (simp add: r0 r1)
        next
          case n2: False
          then have k2: "k \<noteq> 2" using assms(3) st r0 r1 by (cases "k = 2") auto
          then have k3: "k = 3" and ask: "asks_output abspath cfg a"
            using assms(1) k0 k1 by (auto simp: prompt_count_def split: if_splits)
          then obtain v3 r3 where r2: "r2 = v3 # r3" using assms(2) st r0 r1 by (cases r2) auto
          have "is_sentinel v3" using assms(3) st r0 r1 r2 k3 by simp
          then show ?thesis
            using n1 n2 ask a' unfolding m pt by (simp add: r0 r1 r2 prompt_output_asked asks_output_cong)
        qed
      qed
    qed
  qed
qed

theorem exit_at_every_prompt_witness:
  "prompt_count (\<lambda>p. p) default_config no_args = 4
   \<and> is_sentinel '' EXIT ''
   \<and> main_prompts (\<lambda>p. p) default_config no_args [''1,3'', ''aapl msft'', ''1y'', '' EXIT '']
       = SystemExit 0
   \<and> main_prompts (\<lambda>p. p) default_config no_args [''1,3'', ''aapl msft'', ''Exit'']
       = SystemExit 0"
proof -
  have c: "prompt_count (\<lambda>p. p) default_config no_args = 4"
    by (simp add: prompt_count_def asks_output_def default_config_def no_args_def)
  have s: "is_sentinel '' EXIT ''" "is_sentinel ''Exit''"
    by code_simp+
  have "main_prompts (\<lambda>p. p) default_config no_args [''1,3'', ''aapl msft'', ''1y'', '' EXIT '']
       = SystemExit 0"
    using exit_at_every_prompt
            [of 3 "\<lambda>p. p" default_config no_args "[''1,3'', ''aapl msft'', ''1y'', '' EXIT '']"] c s
    by simp
  moreover have "main_prompts (\<lambda>p. p) default_config no_args [''1,3'', ''aapl msft'', ''Exit'']
       = SystemExit 0"
    using exit_at_every_prompt
            [of 2 "\<lambda>p. p" default_config no_args "[''1,3'', ''aapl msft'', ''Exit'']"] c s
    by simp
  ultimately show ?thesis using c s by simp
qed

text \<open>
  C7 as it is stated fails at the input \<open>1,99\<close>: 99 is no index of the menu, so the
  input is not a list of indices of the menu, and yet the result is not the full set with
  the warning but the first data type alone.
\<close>

theorem select_data_types_out_of_range:
  "\<not> valid_selection ''1,99''
   \<and> select_data_types [''1,99''] = Return (Selected [''historical''], [''historical'']) []"
  by code_simp

text \<open>
  C7, amended: at the menu, for an input that is not the sentinel, \<open>0\<close> or empty input
  yields all data types in the fixed order; an input with a token that is no integer, or
  with no token that is an index of the menu, yields all data types with the warning; and
  otherwise the tokens that are indices of the menu select their data types, in the order
  typed, while the integers out of range are dropped without a warning.
\<close>

theorem select_data_types_result:
  assumes "\<not> is_sentinel v"
  shows "(strip v = [] \<or> strip v = ''0'' \<longrightarrow>
            select_data_types (v # rest) = Return (SelectedAll, DATA_TYPE_KEYS) rest)
       \<and> (strip v \<noteq> [] \<and> strip v \<noteq> ''0'' \<and>
            (\<not> list_all is_integer (menu_tokens v) \<or> List.map_filter menu_choice (menu_tokens v) = []) \<longrightarrow>
            select_data_types (v # rest) = Return (InvalidSelection, DATA_TYPE_KEYS) rest)
       \<and> (strip v \<noteq> [] \<and> strip v \<noteq> ''0'' \<and>
            list_all is_integer (menu_tokens v) \<and> List.map_filter menu_choice (menu_tokens v) \<noteq> [] \<longrightarrow>
            select_data_types (v # rest) =
              Return (Selected (List.map_filter menu_choice (menu_tokens v)),
                      List.map_filter menu_choice (menu_tokens v)) rest)"
proof -
  have s: "safe_input (v # rest) = Return v rest"
    using assms by (simp add: is_sentinel_def)
  have i: "is_integer = (\<lambda>x. py_int (strip x) \<noteq> None)"
    by (simp add: fun_eq_iff is_integer_def)
  have t: "list_all is_integer (menu_tokens v) \<Longrightarrow>
      those (map (\<lambda>x. py_int (strip x)) (menu_tokens v))
        = Some (map (\<lambda>x. the (py_int (strip x))) (menu_tokens v))"
    unfolding i by (simp only: those_map if_True)
  have f: "\<not> list_all is_integer (menu_tokens v) \<Longrightarrow>
      those (map (\<lambda>x. py_int (strip x)) (menu_tokens v)) = None"
    unfolding i by (simp only: those_map if_False)
  show ?thesis
    unfolding select_data_types_def s
    using t f selected_types_of_tokens [of "menu_tokens v"]
    by (cases "list_all is_integer (menu_tokens v)") (auto simp: Let_def menu_tokens_def [symmetric])
qed

theorem select_data_types_result_witness:
  "select_data_types [''0''] = Return (SelectedAll, DATA_TYPE_KEYS) []
   \<and> select_data_types [''1,x''] = Return (InvalidSelection, DATA_TYPE_KEYS) []
   \<and> select_data_types [''1, 3,5'']
       = Return (Selected [''historical'', ''quarterly_financials'', ''quarterly_balance_sheet''],
                 [''historical'', ''quarterly_financials'', ''quarterly_balance_sheet'']) []"
proof -
  have n: "\<not> is_sentinel ''0''" "\<not> is_sentinel ''1,x''" "\<not> is_sentinel ''1, 3,5''"
    by code_simp+
  have a: "strip ''0'' = ''0''"
    by code_simp
  have b: "strip ''1,x'' \<noteq> [] \<and> strip ''1,x'' \<noteq> ''0'' \<and> \<not> list_all is_integer (menu_tokens ''1,x'')"
    by code_simp
  have c: "strip ''1, 3,5'' \<noteq> [] \<and> strip ''1, 3,5'' \<noteq> ''0'' \<and> list_all is_integer (menu_tokens ''1, 3,5'')"
    by code_simp
  have d: "List.map_filter menu_choice (menu_tokens ''1, 3,5'')
      = [''historical'', ''quarterly_financials'', ''quarterly_balance_sheet'']"
    by code_simp
  show ?thesis
    using select_data_types_result [OF n(1), of "[]"] a
          select_data_types_result [OF n(2), of "[]"] b
          select_data_types_result [OF n(3), of "[]"] c d
    by simp
qed

section \<open>Properties of the statistics\<close>

lemma tail_last_rows: "tail n xs = last_rows n xs"
  by (simp add: tail_def last_rows_def take_rev)

lemma last_rows_short: "length xs \<le> n \<Longrightarrow> last_rows n xs = xs"
  by (simp add: last_rows_def)

lemma length_last_rows: "length (last_rows n xs) = min n (length xs)"
  by (simp add: last_rows_def min.commute)

lemma last_rows_nth:
  "n \<le> length xs \<Longrightarrow> i < n \<Longrightarrow> last_rows n xs ! i = xs ! (length xs - n + i)"
  by (simp add: tail_last_rows [symmetric] tail_def)

lemma last_rows_map: "last_rows n (map f xs) = map f (last_rows n xs)"
  by (simp add: last_rows_def rev_map take_map)

lemma series_max_Max:
  "series_max xs = (if observed xs = [] then None else Some (Max (set (observed xs))))"
proof (cases "observed xs")
  case Nil
  then show ?thesis by (simp add: series_max_def)
next
  case (Cons v vs)
  have "fold max vs v = Max (set (v # vs))" by (rule Max.set_eq_fold [symmetric])
  then show ?thesis by (simp add: series_max_def Cons)
qed

lemma series_min_Min:
  "series_min xs = (if observed xs = [] then None else Some (Min (set (observed xs))))"
proof (cases "observed xs")
  case Nil
  then show ?thesis by (simp add: series_min_def)
next
  case (Cons v vs)
  have "fold min vs v = Min (set (v # vs))" by (rule Min.set_eq_fold [symmetric])
  then show ?thesis by (simp add: series_min_def Cons)
qed

lemma observed_all_present:
  "\<forall>x \<in> set xs. x \<noteq> None \<Longrightarrow> length (observed xs) = length xs"
  by (induction xs rule: observed.induct) auto

lemma observed_length_le: "length (observed xs) \<le> length xs"
  by (induction xs rule: observed.induct) auto

lemma observed_some_missing:
  "None \<in> set xs \<Longrightarrow> length (observed xs) < length xs"
proof (induction xs rule: observed.induct)
  case (2 xs)
  then show ?case using observed_length_le [of xs] by simp
qed auto

lemma observed_Some: "observed (map Some xs) = xs"
  by (induction xs) auto

lemma rolling_mean_last:
  assumes "xs \<noteq> []"
  shows "iloc_last (rolling_mean w xs) = Inr (window_mean w (last_rows w xs))"
proof -
  have n: "0 < length xs" using assms by simp
  then have "last (rolling_mean w xs) = window_mean w (tail w (take (Suc (length xs - 1)) xs))"
    unfolding rolling_mean_def by (simp add: last_map last_upt)
  then show ?thesis
    using assms n by (simp add: iloc_last_def rolling_mean_def tail_last_rows)
qed

lemma loc_year_no_rows:
  assumes "\<forall>r \<in> set rows. year (fst r) \<noteq> y"
  shows "loc_year y rows = Inl KeyError \<or> loc_year y rows = Inr []"
proof -
  have "filter (\<lambda>(d, v). year d = y) rows = []"
    using assms by (auto simp: filter_empty_conv)
  then show ?thesis by (simp add: loc_year_def Let_def)
qed

text \<open>What \<open>analyze_stock_data\<close> returns, when it returns, in terms of its parts.\<close>

lemma analyze_stock_data_parts:
  assumes "analyze_stock_data y hist = Inr a"
  shows "iloc_last (map Close hist) = Inr (current_price a)
       \<and> week52_high a = high_52w hist \<and> week52_low a = low_52w hist
       \<and> moving_average 50 hist = Inr (ma_50 a) \<and> moving_average 200 hist = Inr (ma_200 a)"
  using assms by (auto simp: analyze_stock_data_def split: sum.splits)

text \<open>The example series: its length and its last rows.\<close>

lemma length_linear_history: "length linear_history = 300"
  by (simp add: linear_history_def)

lemma last_rows_linear_history:
  "w \<le> 300 \<Longrightarrow>
   last_rows w linear_history = map (\<lambda>i. flat_bar (day_stamp 2024 i) (100 + real i)) [300 - w..<300]"
  unfolding linear_history_def tail_last_rows [symmetric] tail_def
  by (simp add: drop_map)

lemma closes_linear_history:
  "w \<le> 300 \<Longrightarrow>
   observed (map Close (last_rows w linear_history)) = map (\<lambda>i. 100 + real i) [300 - w..<300]"
proof -
  assume "w \<le> 300"
  then have "map Close (last_rows w linear_history) = map Some (map (\<lambda>i. 100 + real i) [300 - w..<300])"
    by (simp add: last_rows_linear_history flat_bar_def)
  then show ?thesis by (simp only: observed_Some)
qed

lemma sum_last_50: "sum_list (map (\<lambda>i. 100 + real i) [250..<300]) = 18725"
  by (simp add: upt_rec_numeral)

lemma sum_last_200: "sum_list (map (\<lambda>i. 100 + real i) [100..<300]) = 59900"
  by (simp add: upt_rec_numeral)

lemma closes_present_linear_history:
  "\<forall>b \<in> set (last_rows w linear_history). Close b \<noteq> None"
proof -
  have "set (last_rows w linear_history) \<subseteq> set linear_history"
    by (auto simp: last_rows_def dest: in_set_takeD)
  moreover have "\<forall>b \<in> set linear_history. Close b \<noteq> None"
    by (auto simp: linear_history_def flat_bar_def)
  ultimately show ?thesis by blast
qed

lemma closes_last_50:
  "observed (map Close (last_rows 50 linear_history)) = map (\<lambda>i. 100 + real i) [250..<300]"
  using closes_linear_history [of 50] by simp

lemma closes_last_200:
  "observed (map Close (last_rows 200 linear_history)) = map (\<lambda>i. 100 + real i) [100..<300]"
  using closes_linear_history [of 200] by simp

lemma mean_last_50: "sum_list (observed (map Close (last_rows 50 linear_history))) / real 50 = 749 / 2"
  by (simp only: closes_last_50 sum_last_50)

lemma mean_last_200: "sum_list (observed (map Close (last_rows 200 linear_history))) / real 200 = 599 / 2"
  by (simp only: closes_last_200 sum_last_200)

text \<open>
  C4: the 52-week high and low are the maximum of the column \<open>High\<close> and the minimum of
  the column \<open>Low\<close> over the last 252 rows, NaN being skipped (and the result NaN when
  nothing else is there); with at most 252 rows these are all rows, and with more they
  are the rows at the last 252 positions. Nothing is raised.
\<close>

theorem week52_high_low:
  "high_52w hist =
     (if observed (map High (last_rows 252 hist)) = [] then None
      else Some (Max (set (observed (map High (last_rows 252 hist))))))
   \<and> low_52w hist =
     (if observed (map Low (last_rows 252 hist)) = [] then None
      else Some (Min (set (observed (map Low (last_rows 252 hist))))))
   \<and> (length hist \<le> 252 \<longrightarrow> last_rows 252 hist = hist)
   \<and> (252 \<le> length hist \<longrightarrow> length (last_rows 252 hist) = 252
        \<and> (\<forall>i < 252. last_rows 252 hist ! i = hist ! (length hist - 252 + i)))"
  by (simp add: high_52w_def low_52w_def series_max_Max series_min_Min tail_last_rows
      last_rows_map last_rows_short length_last_rows last_rows_nth)

theorem week52_high_low_witness:
  "length stale_history \<le> 252 \<and> last_rows 252 stale_history = stale_history
   \<and> high_52w stale_history = Some 103 \<and> low_52w stale_history = Some 99
   \<and> Max (set (observed (map High stale_history))) = 103
   \<and> 252 \<le> length linear_history \<and> length (last_rows 252 linear_history) = 252
   \<and> last_rows 252 linear_history ! 0 = linear_history ! 48"
proof -
  have s: "length stale_history \<le> 252" by (simp add: stale_history_def)
  have l: "252 \<le> length linear_history" by (simp add: length_linear_history)
  have o: "observed (map High stale_history) \<noteq> []" by (simp add: stale_history_def flat_bar_def)
  have h: "high_52w stale_history = Some 103" "low_52w stale_history = Some 99"
    by code_simp+
  have e: "last_rows 252 stale_history = stale_history"
    using week52_high_low [of stale_history] s by blast
  have m: "Max (set (observed (map High stale_history))) = 103"
    using week52_high_low [of stale_history] e o h by simp
  have "length (last_rows 252 linear_history) = 252
        \<and> (\<forall>i < 252. last_rows 252 linear_history ! i = linear_history ! (length linear_history - 252 + i))"
    using week52_high_low [of linear_history] l by blast
  then have "length (last_rows 252 linear_history) = 252"
    and "last_rows 252 linear_history ! 0 = linear_history ! 48"
    by (simp_all add: length_linear_history)
  then show ?thesis using s l h e m by simp
qed

text \<open>
  C3 as it is stated fails on a series of two rows: the 50-day average is NaN, not the
  mean of the two closes.
\<close>

theorem short_history_average:
  "moving_average 50 stale_history = Inr None
   \<and> moving_average 50 stale_history \<noteq> Inr (Some ((100 + 102) / 2))"
  by code_simp

text \<open>
  C3, amended: for every series that is not empty, the moving average over a window of
  \<open>w\<close> rows (50 and 200 in the script) raises nothing. With fewer than \<open>w\<close> rows it is
  NaN. With at least \<open>w\<close> rows it is the arithmetic mean of the last \<open>w\<close> closes when
  none of them is NaN, and NaN when one of them is.
\<close>

theorem moving_average_window:
  assumes "hist \<noteq> []" and "0 < w"
  shows "(length hist < w \<longrightarrow> moving_average w hist = Inr None)
       \<and> (w \<le> length hist \<and> (\<forall>b \<in> set (last_rows w hist). Close b \<noteq> None) \<longrightarrow>
            moving_average w hist
              = Inr (Some (sum_list (observed (map Close (last_rows w hist))) / real w)))
       \<and> (w \<le> length hist \<and> (\<exists>b \<in> set (last_rows w hist). Close b = None) \<longrightarrow>
            moving_average w hist = Inr None)"
proof -
  let ?win = "map Close (last_rows w hist)"
  have m: "moving_average w hist = Inr (window_mean w ?win)"
    using assms(1) rolling_mean_last [of "map Close hist" w]
    by (simp add: moving_average_def last_rows_map)
  have len: "length ?win = min w (length hist)" by (simp add: length_last_rows)
  have short: "length hist < w \<Longrightarrow> window_mean w ?win = None"
    using observed_length_le [of ?win] len by (simp add: window_mean_def Let_def)
  have full: "w \<le> length hist \<Longrightarrow> \<forall>b \<in> set (last_rows w hist). Close b \<noteq> None \<Longrightarrow>
      window_mean w ?win = Some (sum_list (observed ?win) / real w)"
  proof -
    assume a: "w \<le> length hist" "\<forall>b \<in> set (last_rows w hist). Close b \<noteq> None"
    then have "length (observed ?win) = w"
      using observed_all_present [of ?win] len by auto
    then show ?thesis using assms(2) by (auto simp: window_mean_def Let_def)
  qed
  have gap: "w \<le> length hist \<Longrightarrow> \<exists>b \<in> set (last_rows w hist). Close b = None \<Longrightarrow>
      window_mean w ?win = None"
  proof -
    assume a: "w \<le> length hist" "\<exists>b \<in> set (last_rows w hist). Close b = None"
    then have "None \<in> set ?win" by force
    then have "length (observed ?win) < w"
      using observed_some_missing [of ?win] len a(1) by simp
    then show ?thesis by (simp add: window_mean_def Let_def)
  qed
  show ?thesis using m short full gap by simp
qed

theorem moving_average_window_witness:
  "moving_average 50 linear_history = Inr (Some (749 / 2))
   \<and> moving_average 200 linear_history = Inr (Some (599 / 2))
   \<and> sum_list (observed (map Close (last_rows 50 linear_history))) / real 50 = 749 / 2
   \<and> moving_average 200 stale_history = Inr None
   \<and> moving_average 2 nan_history = Inr None"
proof -
  have ne: "linear_history \<noteq> []" "stale_history \<noteq> []" "nan_history \<noteq> []"
    by (simp_all add: linear_history_def stale_history_def nan_history_def)
  have p50: "50 \<le> length linear_history \<and> (\<forall>b \<in> set (last_rows 50 linear_history). Close b \<noteq> None)"
    using closes_present_linear_history [of 50] by (simp add: length_linear_history)
  have p200: "200 \<le> length linear_history \<and> (\<forall>b \<in> set (last_rows 200 linear_history). Close b \<noteq> None)"
    using closes_present_linear_history [of 200] by (simp add: length_linear_history)
  have short: "length stale_history < 200" by (simp add: stale_history_def)
  have w: "0 < (50::nat)" "0 < (200::nat)" "0 < (2::nat)" by simp_all
  have nan: "2 \<le> length nan_history \<and> (\<exists>b \<in> set (last_rows 2 nan_history). Close b = None)"
    by (simp add: nan_history_def last_rows_def flat_bar_def)
  have "moving_average 50 linear_history
      = Inr (Some (sum_list (observed (map Close (last_rows 50 linear_history))) / real 50))"
    using moving_average_window [OF ne(1) w(1)] p50 by blast
  then have a: "moving_average 50 linear_history = Inr (Some (749 / 2))"
    by (simp only: mean_last_50)
  have "moving_average 200 linear_history
      = Inr (Some (sum_list (observed (map Close (last_rows 200 linear_history))) / real 200))"
    using moving_average_window [OF ne(1) w(2)] p200 by blast
  then have b: "moving_average 200 linear_history = Inr (Some (599 / 2))"
    by (simp only: mean_last_200)
  have c: "moving_average 200 stale_history = Inr None"
    using moving_average_window [OF ne(2) w(2)] short by blast
  have d: "moving_average 2 nan_history = Inr None"
    using moving_average_window [OF ne(3) w(3)] nan by blast
  show ?thesis using a b c d mean_last_50 by blast
qed

text \<open>
  C2 as it is stated fails on a series whose rows all lie in 2024 when the current year
  is 2026: the computation raises \<open>KeyError\<close> and no summary is returned.
\<close>

theorem stale_history_raises:
  "stale_history \<noteq> [] \<and> \<not> has_row_in_year 2026 stale_history
   \<and> analyze_stock_data 2026 stale_history = Inl KeyError"
  by code_simp

text \<open>
  C2, amended: for every historical series that is not empty and has no row in the
  current calendar year, the lookup of the first close of the year raises \<open>KeyError\<close> or
  \<open>IndexError\<close>, and \<open>analyze_stock_data\<close> raises the same instead of returning a
  summary.
\<close>

theorem ytd_without_rows_raises:
  assumes "hist \<noteq> []" and "\<not> has_row_in_year y hist"
  shows "(ytd_start_price y hist = Inl KeyError \<and> analyze_stock_data y hist = Inl KeyError)
       \<or> (ytd_start_price y hist = Inl IndexError \<and> analyze_stock_data y hist = Inl IndexError)"
proof -
  have "\<forall>r \<in> set (map (\<lambda>b. (Date b, Close b)) hist). year (fst r) \<noteq> y"
    using assms(2) by (auto simp: has_row_in_year_def)
  then have y: "ytd_start_price y hist = Inl KeyError \<or> ytd_start_price y hist = Inl IndexError"
    using loc_year_no_rows [of "map (\<lambda>b. (Date b, Close b)) hist" y]
    by (auto simp: ytd_start_price_def iloc_first_def)
  have "iloc_last (map Close hist) = Inr (last (map Close hist))"
    using assms(1) by (simp add: iloc_last_def)
  then have "\<And>e. ytd_start_price y hist = Inl e \<Longrightarrow> analyze_stock_data y hist = Inl e"
    by (simp add: analyze_stock_data_def)
  then show ?thesis using y by blast
qed

theorem ytd_without_rows_raises_witness:
  "gap_year_history \<noteq> [] \<and> \<not> has_row_in_year 2025 gap_year_history
   \<and> ytd_start_price 2025 gap_year_history = Inl IndexError
   \<and> analyze_stock_data 2025 gap_year_history = Inl IndexError"
proof -
  have n: "gap_year_history \<noteq> []" by (simp add: gap_year_history_def)
  have h: "\<not> has_row_in_year 2025 gap_year_history" by code_simp
  have e: "ytd_start_price 2025 gap_year_history = Inl IndexError" by code_simp
  show ?thesis using ytd_without_rows_raises [OF n h] n h e by simp
qed

section \<open>Properties of the retries and the batch\<close>

lemma retry_exhausted:
  "\<forall>k \<ge> a. (k = a \<or> int k \<le> n) \<longrightarrow> (\<exists>e. f k = Inl e \<and> is_Exception e) \<Longrightarrow>
   \<exists>e. retry n f a = Inl (RetryError e)"
proof (induction n f a rule: retry.induct)
  case (1 n f attempt)
  then obtain e where e: "f attempt = Inl e" "is_Exception e" by auto
  show ?case
  proof (cases "n \<le> int attempt")
    case True
    then show ?thesis using e by (subst retry.simps) simp
  next
    case False
    have "\<forall>k \<ge> Suc attempt. (k = Suc attempt \<or> int k \<le> n) \<longrightarrow> (\<exists>e. f k = Inl e \<and> is_Exception e)"
      using "1.prems" False by auto
    then have "\<exists>e'. retry n f (Suc attempt) = Inl (RetryError e')"
      using "1.IH" [OF e(1)] e(2) False by simp
    then show ?thesis using e False by (subst retry.simps) simp
  qed
qed

text \<open>
  C1, on the code: when every attempt that the retry policy grants a ticker (the attempts
  1 to \<open>n\<close>, one attempt when \<open>n\<close> is below 1) ends in an exception, the call of
  \<open>analyze_stock\<close> raises \<open>RetryError\<close>, which is none of the four classes that the loop
  catches: the loop stops at that ticker, the rest of the batch is not analysed and the
  banner is not printed.
\<close>

theorem exhausted_ticker_aborts_batch:
  assumes "\<forall>k. 1 \<le> k \<and> (k = 1 \<or> int k \<le> n) \<longrightarrow> (\<exists>e. analyze_stock_body w i k = Inl e \<and> is_Exception e)"
  shows "\<exists>e. batch_loop (analyze_stock w n) n_total i (ticker_symbol # rest)
            = ([Analyzing i n_total ticker_symbol], Some (RetryError e))"
proof -
  obtain e where "analyze_stock w n i = Inl (RetryError e)"
    using retry_exhausted [of 1 n "analyze_stock_body w i"] assms
    by (auto simp: analyze_stock_def)
  then show ?thesis by (auto simp: caught_by_batch_def)
qed

theorem exhausted_ticker_aborts_batch_witness:
  "run_batch delisted_world 3 [''BAD'', ''AAPL'']
     = ([Analyzing 1 2 ''BAD''], Some (RetryError ValueError))
   \<and> AnalysisComplete \<notin> set (fst (run_batch delisted_world 3 [''BAD'', ''AAPL'']))"
proof -
  have b: "\<forall>k. 1 \<le> k \<and> (k = 1 \<or> int k \<le> 3) \<longrightarrow>
      (\<exists>e. analyze_stock_body delisted_world 1 k = Inl e \<and> is_Exception e)"
    by (simp add: analyze_stock_body_def delisted_world_def)
  obtain e where eq: "batch_loop (analyze_stock delisted_world 3) 2 1 [''BAD'', ''AAPL'']
      = ([Analyzing 1 2 ''BAD''], Some (RetryError e))"
    using exhausted_ticker_aborts_batch [OF b] by blast
  have r: "analyze_stock delisted_world 3 1 = Inl (RetryError ValueError)"
    by (simp add: analyze_stock_def analyze_stock_body_def delisted_world_def)
  have "batch_loop (analyze_stock delisted_world 3) 2 1 [''BAD'', ''AAPL'']
      = ([Analyzing 1 2 ''BAD''], Some (RetryError ValueError))"
    by (simp only: batch_loop.simps r) (simp add: caught_by_batch_def)
  with eq have e: "e = ValueError" by simp
  have l: "length [''BAD'', ''AAPL''] = 2" by simp
  have "run_batch delisted_world 3 [''BAD'', ''AAPL'']
     = ([Analyzing 1 2 ''BAD''], Some (RetryError ValueError))"
    unfolding run_batch_def l using eq e by simp
  then show ?thesis by simp
qed

end
